theory Spec2Isabelle
  imports Main "HOL-Library.Sublist" "HOL-Library.AList"
begin

section \<open>Data model\<close>

text \<open>
  The module \<^verbatim>\<open>django_vite/templatetags/django_vite.py\<close> reads a Vite manifest
  (a JSON object) and renders HTML tags from it. Python strings are \<^typ>\<open>string\<close>,
  Python dictionaries are association lists in insertion order (the first pair of a key
  is the dictionary's pair of that key), exceptions are values of \<open>error\<close> on the left
  of a sum.
\<close>

datatype error =
    RuntimeError string
  | KeyError string
  | AttributeError string
  | IndexError
  | RecursionError

type_synonym attrs = "(string \<times> string) list"

text \<open>
  A manifest entry is a JSON object of which the code reads three keys: \<^verbatim>\<open>"file"\<close>,
  \<^verbatim>\<open>"imports"\<close> and \<^verbatim>\<open>"css"\<close>. Each may be absent (\<open>None\<close>).
\<close>

record manifest_entry =
  entry_file :: "string option"
  entry_imports :: "string list option"
  entry_css :: "string list option"

type_synonym manifest = "(string \<times> manifest_entry) list"

text \<open>
  The module-level constants, as they stand once the module has been imported.
  \<open>DJANGO_VITE_DEV_SERVER_PORT\<close> is the text that the f-string of
  \<^verbatim>\<open>_generate_vite_server_url\<close> renders for it.
\<close>

record settings =
  DJANGO_VITE_DEV_MODE :: bool
  DJANGO_VITE_DEV_SERVER_PROTOCOL :: string
  DJANGO_VITE_DEV_SERVER_HOST :: string
  DJANGO_VITE_DEV_SERVER_PORT :: string
  DJANGO_VITE_WS_CLIENT_URL :: string
  DJANGO_VITE_REACT_REFRESH_URL :: string
  DJANGO_VITE_STATIC_URL_PREFIX :: string
  DJANGO_VITE_MANIFEST_PATH :: string
  DJANGO_VITE_LEGACY_POLYFILLS_MOTIF :: string
  DJANGO_VITE_STATIC_URL :: string

text \<open>
  What the module calls and does not define: \<^verbatim>\<open>urllib.parse.urljoin\<close>; the
  \<^verbatim>\<open>url\<close> method of Django's \<^verbatim>\<open>staticfiles_storage\<close>, present exactly when
  \<^verbatim>\<open>apps.is_installed("django.contrib.staticfiles")\<close>; opening and reading a file
  (\<open>Inl\<close> carries the text of the exception); \<^verbatim>\<open>json.loads\<close> (likewise); and the
  number of nested calls of \<^verbatim>\<open>_generate_css_files_of_asset\<close> that the interpreter's
  recursion limit still allows.
\<close>

record platform =
  urljoin :: "string \<Rightarrow> string \<Rightarrow> string"
  staticfiles_storage_url :: "(string \<Rightarrow> string) option"
  read_file :: "string \<Rightarrow> string + string"
  json_loads :: "string \<Rightarrow> string + manifest"
  recursion_limit :: nat

text \<open>
  The mutable state: the class attribute \<^verbatim>\<open>_instance\<close> (\<open>None\<close>, or the loader, which
  is its attribute \<^verbatim>\<open>_manifest\<close>: \<open>None\<close> or a parsed manifest) and the trace of the
  paths given to \<^verbatim>\<open>open\<close>.
\<close>

record world =
  loader_instance :: "manifest option option"
  opened :: "string list"

section \<open>Python helpers\<close>

fun str_join :: "string \<Rightarrow> string list \<Rightarrow> string" where
  "str_join sep [] = []"
| "str_join sep [x] = x"
| "str_join sep (x # y # ys) = x @ sep @ str_join sep (y # ys)"

definition endswith :: "string \<Rightarrow> string \<Rightarrow> bool" where
  "endswith s t = suffix t s"

text \<open>\<^verbatim>\<open>{**d, **kwargs}\<close>: each pair of \<open>kwargs\<close> in turn is stored in \<open>d\<close>; a key
  already there keeps its place and takes the new value, a new key goes to the end.\<close>

definition dict_merge :: "attrs \<Rightarrow> attrs \<Rightarrow> attrs" where
  "dict_merge d kwargs = fold (\<lambda>(k, v). AList.update k v) kwargs d"

definition manifest_falsy :: "manifest option \<Rightarrow> bool" where
  "manifest_falsy mo = (case mo of None \<Rightarrow> True | Some m \<Rightarrow> m = [])"

definition dict_contains :: "('k \<times> 'v) list \<Rightarrow> 'k \<Rightarrow> bool" where
  "dict_contains d k = (k \<in> fst ` set d)"

section \<open>Tag generator\<close>

definition attrs_str :: "attrs \<Rightarrow> string" where
  "attrs_str a = str_join '' '' (map (\<lambda>(key, value). key @ ''=\"'' @ value @ ''\"'') a)"

definition generate_script_tag :: "string \<Rightarrow> attrs \<Rightarrow> string" where
  "generate_script_tag src a = ''<script '' @ attrs_str a @ '' src=\"'' @ src @ ''\"></script>''"

definition generate_stylesheet_tag :: "string \<Rightarrow> string" where
  "generate_stylesheet_tag href = ''<link rel=\"stylesheet\" href=\"'' @ href @ ''\" />''"

definition generate_stylesheet_preload_tag :: "string \<Rightarrow> string" where
  "generate_stylesheet_preload_tag href =
     ''<link rel=\"preload\" href=\"'' @ href @ ''\" as=\"style\" />''"

definition generate_preload_tag :: "string \<Rightarrow> attrs \<Rightarrow> string" where
  "generate_preload_tag href a = ''<link href=\"'' @ href @ ''\" '' @ attrs_str a @ '' />''"

section \<open>URLs\<close>

definition generate_vite_server_url :: "platform \<Rightarrow> settings \<Rightarrow> string \<Rightarrow> string" where
  "generate_vite_server_url p s path =
     urljoin p
       (DJANGO_VITE_DEV_SERVER_PROTOCOL s @ ''://'' @ DJANGO_VITE_DEV_SERVER_HOST s
          @ '':'' @ DJANGO_VITE_DEV_SERVER_PORT s)
       (urljoin p (DJANGO_VITE_STATIC_URL s) path)"

definition generate_production_server_url :: "platform \<Rightarrow> settings \<Rightarrow> string \<Rightarrow> string" where
  "generate_production_server_url p s path =
     (let prefix = (if \<not> endswith (DJANGO_VITE_STATIC_URL_PREFIX s) ''/''
                    then DJANGO_VITE_STATIC_URL_PREFIX s @ ''/''
                    else DJANGO_VITE_STATIC_URL_PREFIX s);
          production_server_url = urljoin p prefix path
      in case staticfiles_storage_url p of
           Some storage_url \<Rightarrow> storage_url production_server_url
         | None \<Rightarrow> production_server_url)"

text \<open>Lines 71 to 77 of the module: the constant \<open>DJANGO_VITE_STATIC_URL\<close> is
  \<^verbatim>\<open>urljoin(settings.STATIC_URL, DJANGO_VITE_STATIC_URL_PREFIX)\<close>, closed by a slash;
  indexing the empty string raises.\<close>

definition init_DJANGO_VITE_STATIC_URL ::
  "(string \<Rightarrow> string \<Rightarrow> string) \<Rightarrow> string \<Rightarrow> string \<Rightarrow> error + string" where
  "init_DJANGO_VITE_STATIC_URL join STATIC_URL url_prefix =
     (let u = join STATIC_URL url_prefix
      in if u = [] then Inl IndexError
         else if last u \<noteq> CHR ''/'' then Inr (u @ ''/'') else Inr u)"

section \<open>Dependency walker\<close>

text \<open>
  \<^verbatim>\<open>_generate_css_files_of_asset\<close>. The list \<open>already_processed\<close> is mutated in place
  and shared by all recursive calls, so it is passed in and returned. The first argument
  is the number of nested calls still allowed; at \<open>0\<close> the interpreter raises
  \<^verbatim>\<open>RecursionError\<close>. \<open>css_loop\<close> is the loop over \<^verbatim>\<open>manifest_entry["css"]\<close>,
  \<open>generate_css_files_of_imports\<close> the loop over \<^verbatim>\<open>manifest_entry["imports"]\<close>.
\<close>

fun css_loop ::
  "platform \<Rightarrow> settings \<Rightarrow> (string \<Rightarrow> string) \<Rightarrow> string list \<Rightarrow> string list \<Rightarrow> string list
     \<Rightarrow> string list \<times> string list" where
  "css_loop p s tag_generator [] tags already_processed = (tags, already_processed)"
| "css_loop p s tag_generator (css_path # rest) tags already_processed =
     css_loop p s tag_generator rest
       (if css_path \<notin> set already_processed
        then tags @ [tag_generator (generate_production_server_url p s css_path)]
        else tags)
       (already_processed @ [css_path])"

fun generate_css_files_of_asset ::
  "nat \<Rightarrow> platform \<Rightarrow> settings \<Rightarrow> manifest \<Rightarrow> string \<Rightarrow> string list \<Rightarrow> (string \<Rightarrow> string)
     \<Rightarrow> error + (string list \<times> string list)"
and generate_css_files_of_imports ::
  "nat \<Rightarrow> platform \<Rightarrow> settings \<Rightarrow> manifest \<Rightarrow> string list \<Rightarrow> string list \<Rightarrow> string list
     \<Rightarrow> (string \<Rightarrow> string) \<Rightarrow> error + (string list \<times> string list)" where
  "generate_css_files_of_asset 0 p s m path already_processed tag_generator =
     Inl RecursionError"
| "generate_css_files_of_asset (Suc d) p s m path already_processed tag_generator =
     (case map_of m path of
        None \<Rightarrow> Inl (KeyError path)
      | Some manifest_entry \<Rightarrow>
          (case (case entry_imports manifest_entry of
                   None \<Rightarrow> Inr ([], already_processed)
                 | Some import_paths \<Rightarrow>
                     generate_css_files_of_imports d p s m import_paths []
                       already_processed tag_generator) of
             Inl e \<Rightarrow> Inl e
           | Inr (tags, already_processed') \<Rightarrow>
               (case entry_css manifest_entry of
                  None \<Rightarrow> Inr (tags, already_processed')
                | Some css_paths \<Rightarrow>
                    Inr (css_loop p s tag_generator css_paths tags already_processed'))))"
| "generate_css_files_of_imports d p s m [] tags already_processed tag_generator =
     Inr (tags, already_processed)"
| "generate_css_files_of_imports d p s m (import_path # rest) tags already_processed
       tag_generator =
     (case generate_css_files_of_asset d p s m import_path already_processed
             tag_generator of
        Inl e \<Rightarrow> Inl e
      | Inr (sub_tags, already_processed') \<Rightarrow>
          generate_css_files_of_imports d p s m rest (tags @ sub_tags)
            already_processed' tag_generator)"

definition load_css_files_of_asset ::
  "platform \<Rightarrow> settings \<Rightarrow> manifest \<Rightarrow> string \<Rightarrow> string list \<Rightarrow> error + string list" where
  "load_css_files_of_asset p s m path already_processed =
     map_sum id fst
       (generate_css_files_of_asset (recursion_limit p) p s m path already_processed
          generate_stylesheet_tag)"

definition preload_css_files_of_asset ::
  "platform \<Rightarrow> settings \<Rightarrow> manifest \<Rightarrow> string \<Rightarrow> string list \<Rightarrow> error + string list" where
  "preload_css_files_of_asset p s m path already_processed =
     map_sum id fst
       (generate_css_files_of_asset (recursion_limit p) p s m path already_processed
          generate_stylesheet_preload_tag)"

section \<open>Asset resolver\<close>

text \<open>The three \<^verbatim>\<open>RuntimeError\<close>s of the module, under the names the specification
  gives them.\<close>

definition UnknownAsset :: "settings \<Rightarrow> string \<Rightarrow> error" where
  "UnknownAsset s path =
     RuntimeError (''Cannot find '' @ path @ '' in Vite manifest at ''
                     @ DJANGO_VITE_MANIFEST_PATH s)"

definition PolyfillsNotFound :: "settings \<Rightarrow> error" where
  "PolyfillsNotFound s =
     RuntimeError (''Vite legacy polyfills not found in manifest at ''
                     @ DJANGO_VITE_MANIFEST_PATH s)"

definition ManifestUnreadable :: "settings \<Rightarrow> string \<Rightarrow> error" where
  "ManifestUnreadable s err =
     RuntimeError (''Cannot read Vite manifest file at '' @ DJANGO_VITE_MANIFEST_PATH s
                     @ '' : '' @ err)"

definition modulepreload_attrs :: attrs where
  "modulepreload_attrs =
     [(''type'', ''text/javascript''), (''crossorigin'', ''anonymous''),
      (''rel'', ''modulepreload''), (''as'', ''script'')]"

text \<open>The loop \<^verbatim>\<open>for dep in manifest_entry.get("imports", [])\<close> of
  \<^verbatim>\<open>generate_vite_asset\<close> and \<^verbatim>\<open>preload_vite_asset\<close>.\<close>

fun preload_imports ::
  "platform \<Rightarrow> settings \<Rightarrow> manifest \<Rightarrow> string list \<Rightarrow> attrs \<Rightarrow> string list
     \<Rightarrow> error + string list" where
  "preload_imports p s m [] a tags = Inr tags"
| "preload_imports p s m (dep # rest) a tags =
     (case map_of m dep of
        None \<Rightarrow> Inl (KeyError dep)
      | Some dep_manifest_entry \<Rightarrow>
          (case entry_file dep_manifest_entry of
             None \<Rightarrow> Inl (KeyError ''file'')
           | Some dep_file \<Rightarrow>
               preload_imports p s m rest a
                 (tags @ [generate_preload_tag
                            (urljoin p (DJANGO_VITE_STATIC_URL s) dep_file) a])))"

definition get_imports :: "manifest_entry \<Rightarrow> string list" where
  "get_imports manifest_entry =
     (case entry_imports manifest_entry of None \<Rightarrow> [] | Some deps \<Rightarrow> deps)"

definition generate_vite_asset ::
  "platform \<Rightarrow> settings \<Rightarrow> manifest option \<Rightarrow> string \<Rightarrow> attrs \<Rightarrow> error + string" where
  "generate_vite_asset p s self_manifest path kwargs =
     (if DJANGO_VITE_DEV_MODE s then
        Inr (generate_script_tag (generate_vite_server_url p s path)
               (dict_merge [(''type'', ''module'')] kwargs))
      else (case self_manifest of
        None \<Rightarrow> Inl (UnknownAsset s path)
      | Some m \<Rightarrow>
          (if m = [] \<or> \<not> dict_contains m path then Inl (UnknownAsset s path)
           else (case map_of m path of
             None \<Rightarrow> Inl (KeyError path)
           | Some manifest_entry \<Rightarrow>
              (let scripts_attrs =
                    dict_merge [(''type'', ''module''), (''crossorigin'', [])] kwargs
              in case load_css_files_of_asset p s m path [] of
                   Inl e \<Rightarrow> Inl e
                 | Inr css_tags \<Rightarrow>
                     (case entry_file manifest_entry of
                        None \<Rightarrow> Inl (KeyError ''file'')
                      | Some f \<Rightarrow>
                          (case preload_imports p s m (get_imports manifest_entry)
                                  modulepreload_attrs
                                  (css_tags @
                                   [generate_script_tag
                                      (generate_production_server_url p s f)
                                      scripts_attrs]) of
                             Inl e \<Rightarrow> Inl e
                           | Inr tags \<Rightarrow> Inr (str_join [CHR 0x0A] tags))))))))"

definition preload_vite_asset ::
  "platform \<Rightarrow> settings \<Rightarrow> manifest option \<Rightarrow> string \<Rightarrow> error + string" where
  "preload_vite_asset p s self_manifest path =
     (if DJANGO_VITE_DEV_MODE s then Inr []
      else (case self_manifest of
        None \<Rightarrow> Inl (UnknownAsset s path)
      | Some m \<Rightarrow>
          (if m = [] \<or> \<not> dict_contains m path then Inl (UnknownAsset s path)
           else (case map_of m path of
             None \<Rightarrow> Inl (KeyError path)
           | Some manifest_entry \<Rightarrow>
              ((case entry_file manifest_entry of
                 None \<Rightarrow> Inl (KeyError ''file'')
               | Some f \<Rightarrow>
                   (case preload_css_files_of_asset p s m path [] of
                      Inl e \<Rightarrow> Inl e
                    | Inr css_tags \<Rightarrow>
                        (case preload_imports p s m (get_imports manifest_entry)
                                modulepreload_attrs
                                ([generate_preload_tag
                                    (urljoin p (DJANGO_VITE_STATIC_URL s) f)
                                    modulepreload_attrs] @ css_tags) of
                           Inl e \<Rightarrow> Inl e
                         | Inr tags \<Rightarrow> Inr (str_join [CHR 0x0A] tags)))))))))"

definition generate_vite_asset_url ::
  "platform \<Rightarrow> settings \<Rightarrow> manifest option \<Rightarrow> string \<Rightarrow> error + string" where
  "generate_vite_asset_url p s self_manifest path =
     (if DJANGO_VITE_DEV_MODE s then Inr (generate_vite_server_url p s path)
      else (case self_manifest of
        None \<Rightarrow> Inl (UnknownAsset s path)
      | Some m \<Rightarrow>
          (if m = [] \<or> \<not> dict_contains m path then Inl (UnknownAsset s path)
           else (case map_of m path of
             None \<Rightarrow> Inl (KeyError path)
           | Some manifest_entry \<Rightarrow>
              ((case entry_file manifest_entry of
                 None \<Rightarrow> Inl (KeyError ''file'')
               | Some f \<Rightarrow> Inr (generate_production_server_url p s f)))))))"

text \<open>The loop \<^verbatim>\<open>for path, content in self._manifest.items()\<close> of
  \<^verbatim>\<open>generate_vite_legacy_polyfills\<close>, with the \<^verbatim>\<open>raise\<close> that follows it.\<close>

fun polyfills_loop :: "platform \<Rightarrow> settings \<Rightarrow> manifest \<Rightarrow> attrs \<Rightarrow> error + string" where
  "polyfills_loop p s [] scripts_attrs = Inl (PolyfillsNotFound s)"
| "polyfills_loop p s ((path, content) # rest) scripts_attrs =
     (if sublist (DJANGO_VITE_LEGACY_POLYFILLS_MOTIF s) path then
        (case entry_file content of
           None \<Rightarrow> Inl (KeyError ''file'')
         | Some f \<Rightarrow>
             Inr (generate_script_tag (generate_production_server_url p s f) scripts_attrs))
      else polyfills_loop p s rest scripts_attrs)"

definition generate_vite_legacy_polyfills ::
  "platform \<Rightarrow> settings \<Rightarrow> manifest option \<Rightarrow> attrs \<Rightarrow> error + string" where
  "generate_vite_legacy_polyfills p s self_manifest kwargs =
     (if DJANGO_VITE_DEV_MODE s then Inr []
      else let scripts_attrs = dict_merge [(''nomodule'', []), (''crossorigin'', [])] kwargs
           in case self_manifest of
                None \<Rightarrow> Inl (AttributeError ''items'')
              | Some m \<Rightarrow> polyfills_loop p s m scripts_attrs)"

definition generate_vite_legacy_asset ::
  "platform \<Rightarrow> settings \<Rightarrow> manifest option \<Rightarrow> string \<Rightarrow> attrs \<Rightarrow> error + string" where
  "generate_vite_legacy_asset p s self_manifest path kwargs =
     (if DJANGO_VITE_DEV_MODE s then Inr []
      else (case self_manifest of
        None \<Rightarrow> Inl (UnknownAsset s path)
      | Some m \<Rightarrow>
          (if m = [] \<or> \<not> dict_contains m path then Inl (UnknownAsset s path)
           else (case map_of m path of
             None \<Rightarrow> Inl (KeyError path)
           | Some manifest_entry \<Rightarrow>
              (let scripts_attrs =
                    dict_merge [(''nomodule'', []), (''crossorigin'', [])] kwargs
              in case entry_file manifest_entry of
                   None \<Rightarrow> Inl (KeyError ''file'')
                 | Some f \<Rightarrow>
                     Inr (generate_script_tag (generate_production_server_url p s f)
                            scripts_attrs))))))"

definition generate_vite_ws_client :: "platform \<Rightarrow> settings \<Rightarrow> attrs \<Rightarrow> string" where
  "generate_vite_ws_client p s kwargs =
     (if \<not> DJANGO_VITE_DEV_MODE s then []
      else generate_script_tag (generate_vite_server_url p s (DJANGO_VITE_WS_CLIENT_URL s))
             (dict_merge [(''type'', ''module'')] kwargs))"

definition generate_vite_react_refresh_url :: "platform \<Rightarrow> settings \<Rightarrow> string" where
  "generate_vite_react_refresh_url p s =
     (if \<not> DJANGO_VITE_DEV_MODE s then []
      else ''<script type=\"module\">'' @ [CHR 0x0A]
         @ ''            import RefreshRuntime from             '' @ [CHR 0x27]
         @ generate_vite_server_url p s (DJANGO_VITE_REACT_REFRESH_URL s) @ [CHR 0x27, CHR 0x0A]
         @ ''            RefreshRuntime.injectIntoGlobalHook(window)'' @ [CHR 0x0A]
         @ ''            window.$RefreshReg$ = () => {}'' @ [CHR 0x0A]
         @ ''            window.$RefreshSig$ = () => (type) => type'' @ [CHR 0x0A]
         @ ''            window.__vite_plugin_react_preamble_installed__ = true'' @ [CHR 0x0A]
         @ ''        </script>'')"

section \<open>Manifest store\<close>

text \<open>\<^verbatim>\<open>_parse_manifest\<close> returns the manifest it stores in \<^verbatim>\<open>self._manifest\<close>; every
  exception of \<^verbatim>\<open>open\<close>, \<^verbatim>\<open>read\<close> or \<^verbatim>\<open>json.loads\<close> becomes the
  \<^verbatim>\<open>RuntimeError\<close> of the \<^verbatim>\<open>except\<close> clause.\<close>

definition parse_manifest ::
  "platform \<Rightarrow> settings \<Rightarrow> world \<Rightarrow> (error + manifest) \<times> world" where
  "parse_manifest p s w =
     (let w' = w\<lparr>opened := opened w @ [DJANGO_VITE_MANIFEST_PATH s]\<rparr>
      in case read_file p (DJANGO_VITE_MANIFEST_PATH s) of
           Inl err \<Rightarrow> (Inl (ManifestUnreadable s err), w')
         | Inr manifest_content \<Rightarrow>
             (case json_loads p manifest_content of
                Inl err \<Rightarrow> (Inl (ManifestUnreadable s err), w')
              | Inr m \<Rightarrow> (Inr m, w')))"

text \<open>\<^verbatim>\<open>DjangoViteAssetLoader.instance\<close>. The new loader is stored in \<^verbatim>\<open>cls._instance\<close>
  with \<^verbatim>\<open>_manifest = None\<close> before the manifest is parsed, and stays there when
  parsing raises.\<close>

definition DjangoViteAssetLoader_instance ::
  "platform \<Rightarrow> settings \<Rightarrow> world \<Rightarrow> (error + manifest option) \<times> world" where
  "DjangoViteAssetLoader_instance p s w =
     (case loader_instance w of
        Some self \<Rightarrow> (Inr self, w)
      | None \<Rightarrow>
          (let w1 = w\<lparr>loader_instance := Some None\<rparr>
           in if \<not> DJANGO_VITE_DEV_MODE s then
                (case parse_manifest p s w1 of
                   (Inl e, w2) \<Rightarrow> (Inl e, w2)
                 | (Inr m, w2) \<Rightarrow> (Inr (Some m), w2\<lparr>loader_instance := Some (Some m)\<rparr>))
              else (Inr None, w1)))"

section \<open>Template tags\<close>

definition vite_hmr_client ::
  "platform \<Rightarrow> settings \<Rightarrow> world \<Rightarrow> attrs \<Rightarrow> (error + string) \<times> world" where
  "vite_hmr_client p s w kwargs = (Inr (generate_vite_ws_client p s kwargs), w)"

definition vite_asset ::
  "platform \<Rightarrow> settings \<Rightarrow> world \<Rightarrow> string \<Rightarrow> attrs \<Rightarrow> (error + string) \<times> world" where
  "vite_asset p s w path kwargs =
     (case DjangoViteAssetLoader_instance p s w of
        (Inl e, w') \<Rightarrow> (Inl e, w')
      | (Inr self, w') \<Rightarrow> (generate_vite_asset p s self path kwargs, w'))"

definition vite_preload_asset ::
  "platform \<Rightarrow> settings \<Rightarrow> world \<Rightarrow> string \<Rightarrow> (error + string) \<times> world" where
  "vite_preload_asset p s w path =
     (case DjangoViteAssetLoader_instance p s w of
        (Inl e, w') \<Rightarrow> (Inl e, w')
      | (Inr self, w') \<Rightarrow> (preload_vite_asset p s self path, w'))"

definition vite_asset_url ::
  "platform \<Rightarrow> settings \<Rightarrow> world \<Rightarrow> string \<Rightarrow> (error + string) \<times> world" where
  "vite_asset_url p s w path =
     (case DjangoViteAssetLoader_instance p s w of
        (Inl e, w') \<Rightarrow> (Inl e, w')
      | (Inr self, w') \<Rightarrow> (generate_vite_asset_url p s self path, w'))"

definition vite_legacy_polyfills ::
  "platform \<Rightarrow> settings \<Rightarrow> world \<Rightarrow> attrs \<Rightarrow> (error + string) \<times> world" where
  "vite_legacy_polyfills p s w kwargs =
     (case DjangoViteAssetLoader_instance p s w of
        (Inl e, w') \<Rightarrow> (Inl e, w')
      | (Inr self, w') \<Rightarrow> (generate_vite_legacy_polyfills p s self kwargs, w'))"

definition vite_legacy_asset ::
  "platform \<Rightarrow> settings \<Rightarrow> world \<Rightarrow> string \<Rightarrow> attrs \<Rightarrow> (error + string) \<times> world" where
  "vite_legacy_asset p s w path kwargs =
     (case DjangoViteAssetLoader_instance p s w of
        (Inl e, w') \<Rightarrow> (Inl e, w')
      | (Inr self, w') \<Rightarrow> (generate_vite_legacy_asset p s self path kwargs, w'))"

definition vite_react_refresh ::
  "platform \<Rightarrow> settings \<Rightarrow> world \<Rightarrow> (error + string) \<times> world" where
  "vite_react_refresh p s w = (Inr (generate_vite_react_refresh_url p s), w)"

section \<open>The specification's words\<close>

text \<open>
  The import graph of a manifest: an edge from each key to each of its imports. A manifest
  is closed when every import of every entry is itself a key (the invariant of the
  specification's data model, which the code does not validate).
\<close>

definition import_graph :: "manifest \<Rightarrow> (string \<times> string) set" where
  "import_graph m =
     {(path, dep). \<exists>e. map_of m path = Some e \<and> dep \<in> set (get_imports e)}"

definition closed_manifest :: "manifest \<Rightarrow> bool" where
  "closed_manifest m =
     (\<forall>path e. map_of m path = Some e \<longrightarrow> set (get_imports e) \<subseteq> fst ` set m)"

definition get_css :: "manifest_entry \<Rightarrow> string list" where
  "get_css manifest_entry =
     (case entry_css manifest_entry of None \<Rightarrow> [] | Some css_paths \<Rightarrow> css_paths)"

text \<open>
  The specification's traversal: at each node, first the CSS of its imports, in order,
  then the node's own CSS. The first argument bounds the depth; \<open>css_in_order\<close> allows
  one level for each pair of the manifest, which is enough when the graph is acyclic.
\<close>

fun css_to_depth :: "nat \<Rightarrow> manifest \<Rightarrow> string \<Rightarrow> string list" where
  "css_to_depth 0 m path = []"
| "css_to_depth (Suc n) m path =
     (case map_of m path of
        None \<Rightarrow> []
      | Some e \<Rightarrow> concat (map (css_to_depth n m) (get_imports e)) @ get_css e)"

definition css_in_order :: "manifest \<Rightarrow> string \<Rightarrow> string list" where
  "css_in_order m path = css_to_depth (length m) m path"

text \<open>Each element once, at the place of its first occurrence; \<open>seen\<close> holds the
  elements met so far.\<close>

fun unseen :: "'a list \<Rightarrow> 'a list \<Rightarrow> 'a list" where
  "unseen seen [] = []"
| "unseen seen (x # xs) =
     (if x \<in> set seen then unseen seen xs else x # unseen (seen @ [x]) xs)"

definition first_occurrences :: "'a list \<Rightarrow> 'a list" where
  "first_occurrences xs = unseen [] xs"


section \<open>Concrete inputs\<close>

text \<open>
  \<^verbatim>\<open>urllib.parse.urljoin\<close> on the references the examples use: \<open>base\<close> is empty or an
  optional \<^verbatim>\<open>scheme://authority\<close> followed by a path, \<open>url\<close> is empty or a path, and no
  path has a query, a fragment, parameters, an empty segment or a dot segment. There the
  library returns \<open>url\<close> for an empty \<open>base\<close>, \<open>base\<close> for an empty \<open>url\<close>, the
  authority of \<open>base\<close> followed by \<open>url\<close> when \<open>url\<close> starts with a slash, and
  otherwise \<open>base\<close> up to its last slash (a slash alone when the path of \<open>base\<close> is
  empty) followed by \<open>url\<close>.
\<close>

fun split_authority :: "string \<Rightarrow> string \<Rightarrow> string \<times> string" where
  "split_authority acc (a # b # c # rest) =
     (if [a, b, c] = ''://''
      then (acc @ ''://'' @ takeWhile (\<lambda>x. x \<noteq> CHR ''/'') rest,
            dropWhile (\<lambda>x. x \<noteq> CHR ''/'') rest)
      else split_authority (acc @ [a]) (b # c # rest))"
| "split_authority acc rest = ([], acc @ rest)"

definition urljoin_model :: "string \<Rightarrow> string \<Rightarrow> string" where
  "urljoin_model base url =
     (if base = [] then url
      else if url = [] then base
      else (case split_authority [] base of
              (authority, bpath) \<Rightarrow>
                if hd url = CHR ''/'' then authority @ url
                else if bpath = [] then authority @ ''/'' @ url
                else authority @ rev (dropWhile (\<lambda>x. x \<noteq> CHR ''/'') (rev bpath)) @ url))"

text \<open>A storage backend that serves the static files from another host:
  \<^verbatim>\<open>urljoin(base_url, name.lstrip("/"))\<close> with that host as \<^verbatim>\<open>base_url\<close>.\<close>

definition cdn_storage_url :: "string \<Rightarrow> string" where
  "cdn_storage_url name =
     urljoin_model ''https://cdn.example.org/'' (dropWhile (\<lambda>x. x = CHR ''/'') name)"

definition production_settings :: settings where
  "production_settings =
     \<lparr>DJANGO_VITE_DEV_MODE = False,
      DJANGO_VITE_DEV_SERVER_PROTOCOL = ''http'',
      DJANGO_VITE_DEV_SERVER_HOST = ''localhost'',
      DJANGO_VITE_DEV_SERVER_PORT = ''3000'',
      DJANGO_VITE_WS_CLIENT_URL = ''@vite/client'',
      DJANGO_VITE_REACT_REFRESH_URL = ''@react-refresh'',
      DJANGO_VITE_STATIC_URL_PREFIX = [],
      DJANGO_VITE_MANIFEST_PATH = ''/srv/static/manifest.json'',
      DJANGO_VITE_LEGACY_POLYFILLS_MOTIF = ''legacy-polyfills'',
      DJANGO_VITE_STATIC_URL = ''/static/''\<rparr>"

definition development_settings :: settings where
  "development_settings = production_settings\<lparr>DJANGO_VITE_DEV_MODE := True\<rparr>"

text \<open>A host without \<^verbatim>\<open>django.contrib.staticfiles\<close> and without a manifest file, and
  one with the storage above.\<close>

definition bare_platform :: platform where
  "bare_platform =
     \<lparr>urljoin = urljoin_model,
      staticfiles_storage_url = None,
      read_file = (\<lambda>path. Inl ''No such file or directory''),
      json_loads = (\<lambda>content. Inl ''Expecting value''),
      recursion_limit = 990\<rparr>"

definition cdn_platform :: platform where
  "cdn_platform = bare_platform\<lparr>staticfiles_storage_url := Some cdn_storage_url\<rparr>"

text \<open>The manifest of the specification's example: a parent importing \<open>A\<close> and \<open>B\<close>,
  which share a stylesheet.\<close>

definition shared_css_manifest :: manifest where
  "shared_css_manifest =
     [(''parent.js'', \<lparr>entry_file = Some ''assets/parent.js'',
                       entry_imports = Some [''A.js'', ''B.js''], entry_css = None\<rparr>),
      (''A.js'', \<lparr>entry_file = Some ''assets/A.js'', entry_imports = None,
                  entry_css = Some [''a.css'']\<rparr>),
      (''B.js'', \<lparr>entry_file = Some ''assets/B.js'', entry_imports = None,
                  entry_css = Some [''a.css'', ''b.css'']\<rparr>)]"

text \<open>A manifest with one import, one with the polyfills of the legacy plugin, and one
  whose two entries import each other.\<close>

definition vendor_manifest :: manifest where
  "vendor_manifest =
     [(''main.js'', \<lparr>entry_file = Some ''assets/main.js'',
                     entry_imports = Some [''_vendor.js''], entry_css = None\<rparr>),
      (''_vendor.js'', \<lparr>entry_file = Some ''assets/vendor.js'', entry_imports = None,
                        entry_css = None\<rparr>)]"


definition cyclic_manifest :: manifest where
  "cyclic_manifest =
     [(''a.js'', \<lparr>entry_file = Some ''assets/a.js'', entry_imports = Some [''b.js''],
                  entry_css = None\<rparr>),
      (''b.js'', \<lparr>entry_file = Some ''assets/b.js'', entry_imports = Some [''a.js''],
                  entry_css = None\<rparr>)]"

text \<open>A host whose manifest file can be read and parses to \<open>m\<close>, and the state of a
  process that has not asked for the loader yet.\<close>

definition served_platform :: "manifest \<Rightarrow> platform" where
  "served_platform m =
     bare_platform
       \<lparr>read_file := (\<lambda>path. if path = ''/srv/static/manifest.json'' then Inr ''{}''
                            else Inl ''No such file or directory''),
        json_loads := (\<lambda>content. Inr m)\<rparr>"

definition fresh_world :: world where
  "fresh_world = \<lparr>loader_instance = None, opened = []\<rparr>"

section \<open>The traversal on an acyclic manifest\<close>

text \<open>
  The invariant of a descent: \<open>A\<close> holds keys that all reach \<open>path\<close> through imports
  (the callers on the stack), and at most \<open>d\<close> keys are outside \<open>A\<close>. In an acyclic graph
  \<open>path\<close> is then outside \<open>A\<close>, so \<open>d\<close> is positive, and the invariant passes to every
  import of \<open>path\<close> with \<open>d - 1\<close>.
\<close>

definition on_path :: "manifest \<Rightarrow> string set \<Rightarrow> string \<Rightarrow> nat \<Rightarrow> bool" where
  "on_path m A path d =
     (path \<in> fst ` set m \<and> A \<subseteq> fst ` set m
      \<and> (\<forall>a \<in> A. (a, path) \<in> (import_graph m)\<^sup>+)
      \<and> card (fst ` set m - A) \<le> d)"

lemma unseen_cong: "set seen = set seen' \<Longrightarrow> unseen seen xs = unseen seen' xs"
proof (induction xs arbitrary: seen seen')
  case Nil
  show ?case by simp
next
  case (Cons x xs)
  have mem: "x \<in> set seen \<longleftrightarrow> x \<in> set seen'" using Cons.prems by simp
  have "set (seen @ [x]) = set (seen' @ [x])" using Cons.prems by simp
  then have ext: "unseen (seen @ [x]) xs = unseen (seen' @ [x]) xs" by (rule Cons.IH)
  have same: "unseen seen xs = unseen seen' xs" using Cons.prems by (rule Cons.IH)
  show ?case using mem ext same by simp
qed

lemma unseen_append: "unseen seen (xs @ ys) = unseen seen xs @ unseen (seen @ xs) ys"
proof (induction xs arbitrary: seen)
  case Nil
  show ?case by simp
next
  case (Cons x xs)
  show ?case
  proof (cases "x \<in> set seen")
    case True
    then have "unseen (seen @ x # xs) ys = unseen (seen @ xs) ys"
      by (intro unseen_cong) auto
    with True Cons.IH[of seen] show ?thesis by simp
  next
    case False
    with Cons.IH[of "seen @ [x]"] show ?thesis by simp
  qed
qed

lemma unseen_set: "set (unseen seen xs) = set xs - set seen"
  by (induction xs arbitrary: seen) auto

lemma unseen_distinct: "distinct (unseen seen xs)"
  by (induction xs arbitrary: seen) (auto simp: unseen_set)

lemma css_loop_eq:
  "css_loop p s tg css_paths tags ap =
     (tags @ map (\<lambda>c. tg (generate_production_server_url p s c)) (unseen ap css_paths),
      ap @ css_paths)"
proof (induction css_paths arbitrary: tags ap)
  case Nil
  show ?case by simp
next
  case (Cons c cs)
  have "unseen (ap @ [c]) cs = unseen ap cs" if "c \<in> set ap"
    using that by (intro unseen_cong) auto
  then show ?case by (simp add: Cons.IH)
qed

lemma imports_loop_eq:
  assumes "\<And>q ap. q \<in> set deps \<Longrightarrow>
             generate_css_files_of_asset d p s m q ap tg =
               Inr (map f (unseen ap (S q)), ap @ S q)"
  shows "generate_css_files_of_imports d p s m deps tags ap tg =
           Inr (tags @ map f (unseen ap (concat (map S deps))), ap @ concat (map S deps))"
  using assms
proof (induction deps arbitrary: tags ap)
  case Nil
  show ?case by simp
next
  case (Cons q deps)
  have "generate_css_files_of_asset d p s m q ap tg = Inr (map f (unseen ap (S q)), ap @ S q)"
    using Cons.prems by simp
  moreover have "generate_css_files_of_imports d p s m deps (tags @ map f (unseen ap (S q)))
                   (ap @ S q) tg =
           Inr ((tags @ map f (unseen ap (S q)))
                  @ map f (unseen (ap @ S q) (concat (map S deps))),
                (ap @ S q) @ concat (map S deps))"
    using Cons.prems by (intro Cons.IH) simp
  ultimately show ?case by (simp add: unseen_append)
qed

lemma on_path_pos:
  assumes ac: "acyclic (import_graph m)" and inv: "on_path m A path d"
  shows "0 < d" and "path \<notin> A"
proof -
  let ?K = "fst ` set m"
  show notin: "path \<notin> A"
    using inv ac by (auto simp: on_path_def acyclic_def)
  have "path \<in> ?K - A" using inv notin by (simp add: on_path_def)
  moreover have "finite (?K - A)" by simp
  ultimately have "0 < card (?K - A)"
    by (auto simp: card_gt_0_iff)
  then show "0 < d" using inv by (simp add: on_path_def)
qed

lemma on_path_step:
  assumes ac: "acyclic (import_graph m)" and cl: "closed_manifest m"
    and inv: "on_path m A path (Suc d)" and e: "map_of m path = Some e"
    and q: "q \<in> set (get_imports e)"
  shows "on_path m (insert path A) q d"
proof -
  let ?K = "fst ` set m"
  have edge: "(path, q) \<in> import_graph m"
    using e q by (auto simp: import_graph_def)
  have pK: "path \<in> ?K" and AK: "A \<subseteq> ?K" and card: "card (?K - A) \<le> Suc d"
    and reach: "\<And>a. a \<in> A \<Longrightarrow> (a, path) \<in> (import_graph m)\<^sup>+"
    using inv by (auto simp: on_path_def)
  have notin: "path \<notin> A" using on_path_pos(2)[OF ac inv] .
  have qK: "q \<in> ?K" using cl e q by (auto simp: closed_manifest_def)
  have "card (?K - insert path A) = card (?K - A) - 1"
    using pK notin by simp
  then have card': "card (?K - insert path A) \<le> d" using card by simp
  have reach': "(a, q) \<in> (import_graph m)\<^sup>+" if "a \<in> insert path A" for a
  proof (cases "a = path")
    case True
    with edge show ?thesis by auto
  next
    case False
    with that have "(a, path) \<in> (import_graph m)\<^sup>+" using reach by simp
    then show ?thesis using edge by (rule trancl_into_trancl)
  qed
  show ?thesis
    using qK pK AK card' reach' by (auto simp: on_path_def)
qed

lemma on_path_entry: "on_path m A path d \<Longrightarrow> \<exists>e. map_of m path = Some e"
  by (metis on_path_def domD dom_map_of_conv_image_fst)

lemma css_to_depth_stable:
  assumes ac: "acyclic (import_graph m)" and cl: "closed_manifest m"
  shows "on_path m A path d \<Longrightarrow> d \<le> d' \<Longrightarrow> css_to_depth d' m path = css_to_depth d m path"
proof (induction d arbitrary: A path d')
  case 0
  with on_path_pos(1)[OF ac "0.prems"(1)] show ?case by simp
next
  case (Suc d)
  from Suc.prems(2) obtain d'' where d': "d' = Suc d''" and le: "d \<le> d''"
    by (cases d') auto
  obtain e where e: "map_of m path = Some e"
    using on_path_entry[OF Suc.prems(1)] by blast
  have "css_to_depth d'' m q = css_to_depth d m q" if "q \<in> set (get_imports e)" for q
    using Suc.IH[OF on_path_step[OF ac cl Suc.prems(1) e that] le] .
  then have eq: "map (css_to_depth d'' m) (get_imports e) = map (css_to_depth d m) (get_imports e)"
    by simp
  show ?case by (simp add: d' e eq)
qed

lemma walker_eq:
  assumes ac: "acyclic (import_graph m)" and cl: "closed_manifest m"
  shows "on_path m A path d \<Longrightarrow>
         generate_css_files_of_asset d p s m path ap tg =
           Inr (map (\<lambda>c. tg (generate_production_server_url p s c))
                  (unseen ap (css_to_depth d m path)),
                ap @ css_to_depth d m path)"
proof (induction d arbitrary: A path ap)
  case 0
  with on_path_pos(1)[OF ac "0.prems"(1)] show ?case by simp
next
  case (Suc d)
  let ?f = "\<lambda>c. tg (generate_production_server_url p s c)"
  obtain e where e: "map_of m path = Some e"
    using on_path_entry[OF Suc.prems(1)] by blast
  have kids: "generate_css_files_of_asset d p s m q ap' tg =
                Inr (map ?f (unseen ap' (css_to_depth d m q)), ap' @ css_to_depth d m q)"
    if "q \<in> set (get_imports e)" for q ap'
    using Suc.IH[OF on_path_step[OF ac cl Suc.prems(1) e that]] .
  let ?X = "concat (map (css_to_depth d m) (get_imports e))"
  have imps: "(case entry_imports e of
                   None \<Rightarrow> Inr ([], ap)
                 | Some import_paths \<Rightarrow>
                     generate_css_files_of_imports d p s m import_paths [] ap tg)
               = Inr (map ?f (unseen ap ?X), ap @ ?X)"
  proof (cases "entry_imports e")
    case None
    then show ?thesis by (simp add: get_imports_def)
  next
    case (Some deps)
    then have deps: "get_imports e = deps" by (simp add: get_imports_def)
    show ?thesis
      using imports_loop_eq[of deps d p s m tg ?f "css_to_depth d m" "[]" ap] kids
      by (simp add: Some deps)
  qed
  show ?case
    by (simp add: e imps css_loop_eq unseen_append get_css_def split: option.splits)
qed

section \<open>Facts about the helpers\<close>

lemmas tag_defs = vite_asset_def vite_preload_asset_def vite_asset_url_def vite_legacy_asset_def
  vite_legacy_polyfills_def vite_hmr_client_def vite_react_refresh_def

lemmas op_defs = generate_vite_asset_def preload_vite_asset_def generate_vite_asset_url_def
  generate_vite_legacy_asset_def generate_vite_legacy_polyfills_def

lemmas plat_defs = served_platform_def bare_platform_def cdn_platform_def

lemmas set_defs = production_settings_def development_settings_def

lemmas ex_defs = bare_platform_def cdn_platform_def production_settings_def development_settings_def
  urljoin_model_def cdn_storage_url_def generate_vite_server_url_def generate_production_server_url_def
  endswith_def











lemma instance_dev:
  "DJANGO_VITE_DEV_MODE s \<Longrightarrow>
   \<exists>self w'. DjangoViteAssetLoader_instance p s w = (Inr self, w') \<and> opened w' = opened w"
  by (simp add: DjangoViteAssetLoader_instance_def split: option.splits)

lemma served_instance:
  "DjangoViteAssetLoader_instance (served_platform m) production_settings fresh_world =
     (Inr (Some m),
      \<lparr>loader_instance = Some (Some m), opened = [''/srv/static/manifest.json'']\<rparr>)"
  by (simp add: DjangoViteAssetLoader_instance_def parse_manifest_def plat_defs set_defs
        fresh_world_def)

section \<open>Unknown assets\<close>

text \<open>
  Claim C3. In production mode, with a manifest that the loader has read and parsed, each of
  the four operations that take an entry path raises the \<^verbatim>\<open>RuntimeError\<close> "Cannot find
  ... in Vite manifest" (\<open>UnknownAsset\<close>) for a path that is not a key of the manifest, and
  returns no markup.
\<close>

theorem unknown_asset_fails:
  assumes "\<not> DJANGO_VITE_DEV_MODE s"
    and "DjangoViteAssetLoader_instance p s w = (Inr (Some m), w')"
    and "path \<notin> fst ` set m"
  shows "vite_asset p s w path kwargs = (Inl (UnknownAsset s path), w')
       \<and> vite_preload_asset p s w path = (Inl (UnknownAsset s path), w')
       \<and> vite_asset_url p s w path = (Inl (UnknownAsset s path), w')
       \<and> vite_legacy_asset p s w path kwargs = (Inl (UnknownAsset s path), w')"
  using assms by (simp add: tag_defs op_defs dict_contains_def)

theorem unknown_asset_fails_witness:
  "vite_asset (served_platform vendor_manifest) production_settings fresh_world ''missing.js'' []
     = (Inl (UnknownAsset production_settings ''missing.js''),
        \<lparr>loader_instance = Some (Some vendor_manifest),
         opened = [''/srv/static/manifest.json'']\<rparr>)
   \<and> vite_preload_asset (served_platform vendor_manifest) production_settings fresh_world
       ''missing.js''
     = (Inl (UnknownAsset production_settings ''missing.js''),
        \<lparr>loader_instance = Some (Some vendor_manifest),
         opened = [''/srv/static/manifest.json'']\<rparr>)
   \<and> vite_asset_url (served_platform vendor_manifest) production_settings fresh_world
       ''missing.js''
     = (Inl (UnknownAsset production_settings ''missing.js''),
        \<lparr>loader_instance = Some (Some vendor_manifest),
         opened = [''/srv/static/manifest.json'']\<rparr>)
   \<and> vite_legacy_asset (served_platform vendor_manifest) production_settings fresh_world
       ''missing.js'' []
     = (Inl (UnknownAsset production_settings ''missing.js''),
        \<lparr>loader_instance = Some (Some vendor_manifest),
         opened = [''/srv/static/manifest.json'']\<rparr>)"
proof -
  have h1: "\<not> DJANGO_VITE_DEV_MODE production_settings"
    by (simp add: production_settings_def)
  have h3: "''missing.js'' \<notin> fst ` set vendor_manifest"
    by (simp add: vendor_manifest_def)
  show ?thesis by (rule unknown_asset_fails[OF h1 served_instance h3])
qed

text \<open>
  Claim C10. When the manifest file parses to the empty mapping, the guard
  \<^verbatim>\<open>not self._manifest or path not in self._manifest\<close> holds for every path, and the four
  operations raise the same error as for a missing key.
\<close>

theorem empty_manifest_fails:
  assumes "\<not> DJANGO_VITE_DEV_MODE s"
    and "DjangoViteAssetLoader_instance p s w = (Inr (Some []), w')"
  shows "vite_asset p s w path kwargs = (Inl (UnknownAsset s path), w')
       \<and> vite_preload_asset p s w path = (Inl (UnknownAsset s path), w')
       \<and> vite_asset_url p s w path = (Inl (UnknownAsset s path), w')
       \<and> vite_legacy_asset p s w path kwargs = (Inl (UnknownAsset s path), w')"
  using assms by (simp add: tag_defs op_defs)

theorem empty_manifest_fails_witness:
  "vite_asset (served_platform []) production_settings fresh_world ''main.js'' []
     = (Inl (UnknownAsset production_settings ''main.js''),
        \<lparr>loader_instance = Some (Some []), opened = [''/srv/static/manifest.json'']\<rparr>)
   \<and> vite_preload_asset (served_platform []) production_settings fresh_world ''main.js''
     = (Inl (UnknownAsset production_settings ''main.js''),
        \<lparr>loader_instance = Some (Some []), opened = [''/srv/static/manifest.json'']\<rparr>)
   \<and> vite_asset_url (served_platform []) production_settings fresh_world ''main.js''
     = (Inl (UnknownAsset production_settings ''main.js''),
        \<lparr>loader_instance = Some (Some []), opened = [''/srv/static/manifest.json'']\<rparr>)
   \<and> vite_legacy_asset (served_platform []) production_settings fresh_world ''main.js'' []
     = (Inl (UnknownAsset production_settings ''main.js''),
        \<lparr>loader_instance = Some (Some []), opened = [''/srv/static/manifest.json'']\<rparr>)"
proof -
  have h1: "\<not> DJANGO_VITE_DEV_MODE production_settings"
    by (simp add: production_settings_def)
  show ?thesis by (rule empty_manifest_fails[OF h1 served_instance])
qed

section \<open>Development mode\<close>

text \<open>
  Claim C4. With \<^verbatim>\<open>DJANGO_VITE_DEV_MODE\<close> set, each of the seven template tags returns
  markup (never an exception) and leaves the trace of opened files as it was: the manifest
  file is not read, whatever the host's file system and parser would answer.
\<close>

theorem dev_mode_no_manifest_access:
  assumes "DJANGO_VITE_DEV_MODE s"
  shows "(\<exists>out w'. vite_asset p s w path kwargs = (Inr out, w') \<and> opened w' = opened w)
       \<and> (\<exists>out w'. vite_preload_asset p s w path = (Inr out, w') \<and> opened w' = opened w)
       \<and> (\<exists>out w'. vite_asset_url p s w path = (Inr out, w') \<and> opened w' = opened w)
       \<and> (\<exists>out w'. vite_legacy_asset p s w path kwargs = (Inr out, w') \<and> opened w' = opened w)
       \<and> (\<exists>out w'. vite_legacy_polyfills p s w kwargs = (Inr out, w') \<and> opened w' = opened w)
       \<and> (\<exists>out w'. vite_hmr_client p s w kwargs = (Inr out, w') \<and> opened w' = opened w)
       \<and> (\<exists>out w'. vite_react_refresh p s w = (Inr out, w') \<and> opened w' = opened w)"
  using assms instance_dev[OF assms, of p w]
  by (auto simp add: tag_defs op_defs)

theorem dev_mode_no_manifest_access_witness:
  "(\<exists>out w'. vite_asset bare_platform development_settings fresh_world ''src/main.js'' []
                = (Inr out, w') \<and> opened w' = opened fresh_world)
 \<and> (\<exists>out w'. vite_preload_asset bare_platform development_settings fresh_world ''src/main.js''
                = (Inr out, w') \<and> opened w' = opened fresh_world)
 \<and> (\<exists>out w'. vite_asset_url bare_platform development_settings fresh_world ''src/main.js''
                = (Inr out, w') \<and> opened w' = opened fresh_world)
 \<and> (\<exists>out w'. vite_legacy_asset bare_platform development_settings fresh_world ''src/main.js'' []
                = (Inr out, w') \<and> opened w' = opened fresh_world)
 \<and> (\<exists>out w'. vite_legacy_polyfills bare_platform development_settings fresh_world []
                = (Inr out, w') \<and> opened w' = opened fresh_world)
 \<and> (\<exists>out w'. vite_hmr_client bare_platform development_settings fresh_world []
                = (Inr out, w') \<and> opened w' = opened fresh_world)
 \<and> (\<exists>out w'. vite_react_refresh bare_platform development_settings fresh_world
                = (Inr out, w') \<and> opened w' = opened fresh_world)"
proof -
  have h: "DJANGO_VITE_DEV_MODE development_settings"
    by (simp add: set_defs)
  show ?thesis by (rule dev_mode_no_manifest_access[OF h])
qed

text \<open>
  Claim C6, as the specification states it, puts nothing between the origin of the
  development server and the path. The code joins the path to \<open>DJANGO_VITE_STATIC_URL\<close>
  first: with the static URL \<^verbatim>\<open>/static/\<close> the script of \<^verbatim>\<open>src/main.js\<close> is served from
  \<^verbatim>\<open>http://localhost:3000/static/src/main.js\<close>.
\<close>

theorem dev_asset_url_counterexample:
  "generate_vite_asset bare_platform development_settings None ''src/main.js'' [] =
     Inr (generate_script_tag ''http://localhost:3000/static/src/main.js'' [(''type'', ''module'')])
   \<and> generate_vite_asset bare_platform development_settings None ''src/main.js'' [] \<noteq>
     Inr (generate_script_tag (''http://localhost:3000'' @ ''/'' @ ''src/main.js'')
            [(''type'', ''module'')])
   \<and> init_DJANGO_VITE_STATIC_URL urljoin_model ''/static/'' [] =
       Inr (DJANGO_VITE_STATIC_URL development_settings)"
  by (simp add: generate_vite_asset_def ex_defs dict_merge_def generate_script_tag_def
        init_DJANGO_VITE_STATIC_URL_def)

text \<open>
  Claim C6, amended. In development mode \<open>generate_vite_asset\<close> returns a single script
  tag whose source is \<^verbatim>\<open>urljoin(origin, urljoin(DJANGO_VITE_STATIC_URL, path))\<close>, where the
  origin is protocol, host and port of the development server, with the attributes
  \<^verbatim>\<open>type="module"\<close> merged with the caller's.
\<close>

theorem dev_asset_url:
  assumes "DJANGO_VITE_DEV_MODE s"
  shows "generate_vite_asset p s self path kwargs =
           Inr (generate_script_tag
                  (urljoin p
                     (DJANGO_VITE_DEV_SERVER_PROTOCOL s @ ''://'' @ DJANGO_VITE_DEV_SERVER_HOST s
                        @ '':'' @ DJANGO_VITE_DEV_SERVER_PORT s)
                     (urljoin p (DJANGO_VITE_STATIC_URL s) path))
                  (dict_merge [(''type'', ''module'')] kwargs))"
  using assms by (simp add: generate_vite_asset_def generate_vite_server_url_def)

theorem dev_asset_url_witness:
  "generate_vite_asset bare_platform development_settings None ''src/main.js'' [] =
     Inr (generate_script_tag
            (urljoin bare_platform
               (DJANGO_VITE_DEV_SERVER_PROTOCOL development_settings @ ''://''
                  @ DJANGO_VITE_DEV_SERVER_HOST development_settings
                  @ '':'' @ DJANGO_VITE_DEV_SERVER_PORT development_settings)
               (urljoin bare_platform (DJANGO_VITE_STATIC_URL development_settings)
                  ''src/main.js''))
            (dict_merge [(''type'', ''module'')] []))"
proof -
  have h: "DJANGO_VITE_DEV_MODE development_settings"
    by (simp add: set_defs)
  show ?thesis by (rule dev_asset_url[OF h])
qed

section \<open>Attributes\<close>



section \<open>Legacy polyfills\<close>



section \<open>Preload links\<close>

text \<open>
  Claim C5 asks that every URL of \<open>generate_vite_asset\<close> in production mode goes through
  \<^verbatim>\<open>_generate_production_server_url\<close>. The script tag and the stylesheet links do; the
  modulepreload links are built with \<^verbatim>\<open>urljoin(DJANGO_VITE_STATIC_URL, dep_file)\<close> and
  never reach the storage: with a storage that serves from another host, the import of
  \<^verbatim>\<open>main.js\<close> is preloaded from \<^verbatim>\<open>/static/assets/vendor.js\<close>, while its production URL
  is \<^verbatim>\<open>https://cdn.example.org/assets/vendor.js\<close>.
\<close>

theorem preload_links_bypass_storage:
  "generate_vite_asset cdn_platform production_settings (Some vendor_manifest) ''main.js'' [] =
     Inr (''<script type=\"module\" crossorigin=\"\" src=\"https://cdn.example.org/assets/main.js\"></script>''
          @ [CHR 0x0A]
          @ ''<link href=\"/static/assets/vendor.js\" type=\"text/javascript\" crossorigin=\"anonymous\" rel=\"modulepreload\" as=\"script\" />'')
   \<and> generate_production_server_url cdn_platform production_settings ''assets/vendor.js''
       = ''https://cdn.example.org/assets/vendor.js''"
  by (simp add: generate_vite_asset_def ex_defs dict_merge_def generate_script_tag_def
        vendor_manifest_def dict_contains_def load_css_files_of_asset_def get_imports_def
        modulepreload_attrs_def generate_preload_tag_def attrs_str_def numeral_eq_Suc)

section \<open>CSS collection\<close>

lemma on_path_start:
  assumes "path \<in> fst ` set m" and "length m \<le> d"
  shows "on_path m {} path d"
proof -
  have "card (fst ` set m) \<le> card (set m)" by (rule card_image_le) simp
  also have "\<dots> \<le> length m" by (rule card_length)
  finally show ?thesis using assms by (simp add: on_path_def)
qed

lemma walker_top:
  assumes ac: "acyclic (import_graph m)" and cl: "closed_manifest m"
    and key: "path \<in> fst ` set m" and d: "length m \<le> d"
  shows "generate_css_files_of_asset d p s m path ap tg =
           Inr (map (\<lambda>c. tg (generate_production_server_url p s c))
                  (unseen ap (css_in_order m path)),
                ap @ css_in_order m path)"
proof -
  have "css_to_depth d m path = css_to_depth (length m) m path"
    using css_to_depth_stable[OF ac cl on_path_start[OF key le_refl] d] .
  then show ?thesis
    using walker_eq[OF ac cl on_path_start[OF key d], of p s ap tg]
    by (simp add: css_in_order_def)
qed

lemma css_in_order_unfold:
  assumes ac: "acyclic (import_graph m)" and cl: "closed_manifest m"
    and e: "map_of m path = Some e"
  shows "css_in_order m path = concat (map (css_in_order m) (get_imports e)) @ get_css e"
proof -
  have key: "path \<in> fst ` set m"
    using e by (metis domI dom_map_of_conv_image_fst)
  have "css_to_depth (Suc (length m)) m path = css_to_depth (length m) m path"
    using css_to_depth_stable[OF ac cl on_path_start[OF key le_refl], of "Suc (length m)"]
    by simp
  moreover have "map (css_to_depth (length m) m) (get_imports e) = map (css_in_order m) (get_imports e)"
    by (simp add: css_in_order_def)
  ultimately show ?thesis
    by (simp add: css_in_order_def e del: map_eq_conv)
qed

lemma imports_loop_ok:
  "generate_css_files_of_imports d p s m deps tags ap tg = Inr r \<Longrightarrow> q \<in> set deps \<Longrightarrow>
   \<exists>ap' r'. generate_css_files_of_asset d p s m q ap' tg = Inr r'"
proof (induction deps arbitrary: tags ap)
  case Nil
  then show ?case by simp
next
  case (Cons x deps)
  from Cons.prems(1) obtain t1 ap1 where
      x: "generate_css_files_of_asset d p s m x ap tg = Inr (t1, ap1)"
      and rest: "generate_css_files_of_imports d p s m deps (tags @ t1) ap1 tg = Inr r"
    by (auto split: sum.splits)
  show ?case
  proof (cases "q = x")
    case True
    with x show ?thesis by blast
  next
    case False
    with Cons.prems(2) have "q \<in> set deps" by simp
    from Cons.IH[OF rest this] show ?thesis .
  qed
qed

lemma walker_child_ok:
  assumes "generate_css_files_of_asset (Suc d) p s m path ap tg = Inr r"
    and "(path, q) \<in> import_graph m"
  shows "\<exists>ap' r'. generate_css_files_of_asset d p s m q ap' tg = Inr r'"
proof -
  from assms(2) obtain e where e: "map_of m path = Some e" and q: "q \<in> set (get_imports e)"
    by (auto simp: import_graph_def)
  from q obtain deps where deps: "entry_imports e = Some deps" and qd: "q \<in> set deps"
    by (cases "entry_imports e") (auto simp: get_imports_def)
  from assms(1) obtain r0 where
    "generate_css_files_of_imports d p s m deps [] ap tg = Inr r0"
    by (auto simp: e deps split: sum.splits)
  from imports_loop_ok[OF this qd] show ?thesis .
qed

lemma cycle_never_returns:
  assumes cyc: "(q, q) \<in> (import_graph m)\<^sup>+"
  shows "(path, q) \<in> (import_graph m)\<^sup>* \<Longrightarrow>
         generate_css_files_of_asset d p s m path ap tg \<noteq> Inr r"
proof (induction d arbitrary: path ap r)
  case 0
  show ?case by simp
next
  case (Suc d)
  from Suc.prems cyc have "(path, q) \<in> (import_graph m)\<^sup>+" by (rule rtrancl_trancl_trancl)
  then obtain q' where edge: "(path, q') \<in> import_graph m"
      and rest: "(q', q) \<in> (import_graph m)\<^sup>*"
    by (blast dest: tranclD)
  show ?case
  proof
    assume "generate_css_files_of_asset (Suc d) p s m path ap tg = Inr r"
    from walker_child_ok[OF this edge] obtain ap' r' where
      "generate_css_files_of_asset d p s m q' ap' tg = Inr r'" by blast
    with Suc.IH[OF rest] show False by blast
  qed
qed


lemma shared_css_acyclic: "acyclic (import_graph shared_css_manifest)"
  by (rule acyclicI_order[where f = "\<lambda>path. if path = ''parent.js'' then 1 else (0::nat)"])
     (auto simp: import_graph_def shared_css_manifest_def get_imports_def split: if_splits)

lemma shared_css_closed: "closed_manifest shared_css_manifest"
  by (auto simp: closed_manifest_def shared_css_manifest_def get_imports_def split: if_splits)

lemma shared_css_order: "css_in_order shared_css_manifest ''parent.js'' = [''a.css'', ''a.css'', ''b.css'']"
  by (simp add: css_in_order_def shared_css_manifest_def get_imports_def get_css_def)

lemma cyclic_cycle: "(''a.js'', ''a.js'') \<in> (import_graph cyclic_manifest)\<^sup>+"
proof -
  have "(''a.js'', ''b.js'') \<in> import_graph cyclic_manifest"
    and "(''b.js'', ''a.js'') \<in> import_graph cyclic_manifest"
    by (simp_all add: import_graph_def cyclic_manifest_def get_imports_def)
  then show ?thesis by (rule trancl_into_trancl[OF r_into_trancl])
qed

text \<open>
  Claim C1. For a manifest whose import graph is acyclic and whose imports are all keys, for
  a key of it and a recursion limit of at least the number of entries,
  \<^verbatim>\<open>_generate_css_files_of_asset\<close> called with an empty \<open>already_processed\<close> returns
  the tags of the CSS paths of the traversal (at each node the CSS of its imports, in order,
  before the node's own CSS), each path once, at the place of its first occurrence. On the
  specification's example, a parent importing \<open>A\<close> with \<^verbatim>\<open>a.css\<close> and \<open>B\<close> with
  \<^verbatim>\<open>a.css\<close> and \<^verbatim>\<open>b.css\<close>, the result is the tags of \<^verbatim>\<open>a.css\<close> and \<^verbatim>\<open>b.css\<close>.
\<close>

theorem css_collection_order:
  assumes "acyclic (import_graph m)" and "closed_manifest m"
    and "path \<in> fst ` set m" and "length m \<le> d"
  shows "generate_css_files_of_asset d p s m path [] tag_generator =
           Inr (map (\<lambda>css_path. tag_generator (generate_production_server_url p s css_path))
                  (first_occurrences (css_in_order m path)),
                css_in_order m path)
       \<and> (\<forall>e. map_of m path = Some e \<longrightarrow>
              css_in_order m path = concat (map (css_in_order m) (get_imports e)) @ get_css e)
       \<and> distinct (first_occurrences (css_in_order m path))
       \<and> set (first_occurrences (css_in_order m path)) = set (css_in_order m path)"
  using walker_top[OF assms, of p s "[]" tag_generator] css_in_order_unfold[OF assms(1,2)]
  by (simp add: first_occurrences_def unseen_distinct unseen_set)

theorem css_collection_order_witness:
  "generate_css_files_of_asset 990 bare_platform production_settings shared_css_manifest
     ''parent.js'' [] generate_stylesheet_tag =
     Inr ([generate_stylesheet_tag ''/a.css'', generate_stylesheet_tag ''/b.css''],
          [''a.css'', ''a.css'', ''b.css''])"
proof -
  have key: "''parent.js'' \<in> fst ` set shared_css_manifest"
    by (simp add: shared_css_manifest_def)
  have le: "length shared_css_manifest \<le> 990"
    by (simp add: shared_css_manifest_def)
  note run = css_collection_order[OF shared_css_acyclic shared_css_closed key le,
                 of bare_platform production_settings generate_stylesheet_tag, THEN conjunct1]
  have "map (\<lambda>css_path. generate_stylesheet_tag
                (generate_production_server_url bare_platform production_settings css_path))
          (first_occurrences (css_in_order shared_css_manifest ''parent.js''))
        = [generate_stylesheet_tag ''/a.css'', generate_stylesheet_tag ''/b.css'']"
    by (simp add: shared_css_order first_occurrences_def ex_defs)
  with run show ?thesis by (simp only: shared_css_order)
qed

text \<open>
  Claim C8. For a manifest whose import graph is acyclic and whose imports are all keys, the
  recursive CSS collection returns a result for every recursion limit of at least the
  number of entries. Acyclicity is needed: when a cycle of imports can be reached from the
  path, the collection returns no result under any recursion limit, because the traversal
  keeps track of CSS paths only, not of the nodes it has visited.
\<close>

theorem css_collection_terminates:
  "(acyclic (import_graph m) \<and> closed_manifest m \<and> path \<in> fst ` set m \<and> length m \<le> d \<longrightarrow>
      (\<exists>tags ap'. generate_css_files_of_asset d p s m path ap tag_generator = Inr (tags, ap')))
 \<and> ((path, q) \<in> (import_graph m)\<^sup>* \<and> (q, q) \<in> (import_graph m)\<^sup>+ \<longrightarrow>
      (\<forall>d' r. generate_css_files_of_asset d' p s m path ap tag_generator \<noteq> Inr r))"
  using walker_top[of m path d p s ap tag_generator]
    cycle_never_returns[of q m path _ p s ap tag_generator]
  by blast

theorem css_collection_terminates_witness:
  "(\<exists>tags ap'. generate_css_files_of_asset 990 bare_platform production_settings
                  shared_css_manifest ''parent.js'' [] generate_stylesheet_tag = Inr (tags, ap'))
 \<and> (\<forall>d' r. generate_css_files_of_asset d' bare_platform production_settings
               cyclic_manifest ''a.js'' [] generate_stylesheet_tag \<noteq> Inr r)"
proof -
  have key: "''parent.js'' \<in> fst ` set shared_css_manifest"
    by (simp add: shared_css_manifest_def)
  have le: "length shared_css_manifest \<le> 990"
    by (simp add: shared_css_manifest_def)
  have reach: "(''a.js'', ''a.js'') \<in> (import_graph cyclic_manifest)\<^sup>*" by simp
  have "\<exists>tags ap'. generate_css_files_of_asset 990 bare_platform production_settings
                  shared_css_manifest ''parent.js'' [] generate_stylesheet_tag = Inr (tags, ap')"
    by (rule css_collection_terminates[THEN conjunct1, rule_format,
               OF conjI[OF shared_css_acyclic conjI[OF shared_css_closed conjI[OF key le]]]])
  moreover have "\<forall>d' r. generate_css_files_of_asset d' bare_platform production_settings
               cyclic_manifest ''a.js'' [] generate_stylesheet_tag \<noteq> Inr r"
    by (rule css_collection_terminates[THEN conjunct2, THEN mp, OF conjI[OF reach cyclic_cycle]])
  ultimately show ?thesis by (rule conjI)
qed

section \<open>Markup of an asset in production mode\<close>



end
